theory Spec2Isabelle
  imports Main "HOL-Library.Word"
begin

section \<open>The syntax tree consumed by codegen.cpp\<close>

text \<open>
  The node classes are declared in ast.h; codegen.cpp fixes the fields it reads:
  \<^verbatim>\<open>IntExpr::val\<close>, \<^verbatim>\<open>VarExpr::name\<close>, \<^verbatim>\<open>BinOpExpr::name/lhs/rhs\<close>,
  \<^verbatim>\<open>CallExpr::functionExpr/argumentExprs\<close>, \<^verbatim>\<open>BlockExpr::exprs\<close>,
  \<^verbatim>\<open>FuncProto::name/argNames/argTypes/returnType\<close> and \<^verbatim>\<open>FuncDef::proto/body\<close>.
  The integer field of a literal is kept as a mathematical integer: whatever C++ integer
  type it has, the only use is the conversion in \<^verbatim>\<open>llvm::APInt(32, val)\<close>.
\<close>

datatype Expr =
    IntExpr int
  | VarExpr string
  | BinOpExpr string Expr Expr
  | CallExpr Expr "Expr list"
  | BlockExpr "Expr list"

text \<open>
  A surface type is reached through a \<^verbatim>\<open>Type*\<close> and classified with
  \<^verbatim>\<open>dynamic_cast\<close>: a \<^verbatim>\<open>TypeName\<close> with its name, a \<^verbatim>\<open>UnitType\<close>, or
  anything on which both casts fail (a null pointer, or another subclass).
\<close>

datatype ast_Type = TypeName string | UnitType | OtherType

record FuncProto =
  name :: string
  argNames :: "string list"
  argTypes :: "ast_Type list"
  returnType :: ast_Type

record FuncDef =
  proto :: FuncProto
  body :: Expr

section \<open>Semantic types and failures\<close>

text \<open>\<^verbatim>\<open>type::Int(bits, isSigned)\<close> and \<^verbatim>\<open>type::Unit\<close> of types.h.\<close>

datatype type_Type = Int_t nat bool | Unit_t

text \<open>
  The ways a call can end without returning: \<^verbatim>\<open>std::abort\<close> after the message
  \<^verbatim>\<open>unknown type '<name>'\<close>, a failed \<^verbatim>\<open>assert\<close>, and undefined behaviour of
  C++ (dereferencing an empty pointer, indexing or popping a vector out of range).
\<close>

datatype error = UnknownType string | AssertionFailed | UndefinedBehaviour

section \<open>The IR under construction\<close>

text \<open>The opcodes of the four binary operations the lowering asks for.\<close>

datatype Opcode = OpAdd | OpSub | OpMul | OpSDiv

text \<open>
  An \<^verbatim>\<open>llvm::Value*\<close> is \<open>None\<close> for \<^verbatim>\<open>nullptr\<close>. A value is a 32-bit integer
  constant (constants are unique per context, so the constant is its value), the constant
  that \<^verbatim>\<open>ConstantExpr::get(opcode, lhs, rhs)\<close> answers with on two constants, a function
  of the module (by its position in the module's function list), a formal argument of a
  function (function, position), or the result of an instruction (basic block, position
  in the block). The first three kinds are LLVM's \<^verbatim>\<open>Constant\<close>s.

  \<open>ConstantExpr opc l r\<close> names the answer of LLVM's constant folding without computing
  it: LLVM may simplify it further (for two integer constants to the integer constant of
  the result), which no pointer comparison of the lowering can observe.
\<close>

datatype llValue =
    ConstantInt "32 word"
  | ConstantExpr Opcode llValue llValue
  | Function nat
  | Argument nat nat
  | Instruction nat nat

type_synonym ValuePtr = "llValue option"

text \<open>
  The instructions the builder is asked for: a binary operator with its two operands, a
  call with callee and arguments, a return with its operand (none for \<^verbatim>\<open>nullptr\<close>).
  The name hints \<^verbatim>\<open>"add"\<close>, \<^verbatim>\<open>"sub"\<close>, \<^verbatim>\<open>"mul"\<close>, \<^verbatim>\<open>"div"\<close> and
  \<^verbatim>\<open>"call"\<close> are fixed by the opcode and not stored.
\<close>

datatype Inst =
    BinaryOperator Opcode llValue llValue
  | Call llValue "ValuePtr list"
  | Ret ValuePtr

text \<open>
  A function of the module: the name requested for it, its signature (the resolved
  \<^verbatim>\<open>type::Type\<close> stands for the \<^verbatim>\<open>llvmType\<close> of types.h computed from it), the
  names given to its formal arguments, and its basic blocks (addresses in the block store).
\<close>

record llFunction =
  fnName :: string
  fnReturnType :: type_Type
  fnArgTypes :: "type_Type list"
  fnArgNames :: "string list"
  fnBlocks :: "nat list"

text \<open>
  The module: its identifier, its function list, and the store of basic blocks.
  A block is addressed by a number; \<open>nextBlock\<close> is the first address not yet handed out.
\<close>

record llModule =
  moduleID :: string
  functionList :: "llFunction list"
  blocks :: "nat \<Rightarrow> Inst list"
  nextBlock :: nat

type_synonym IdentifierMap = "string \<rightharpoonup> ValuePtr list"

text \<open>
  \<^verbatim>\<open>ModuleContext\<close> owns the identifier map and points to the module;
  \<^verbatim>\<open>FuncContext\<close> points to both and to the current block. The model passes the
  pointed-to objects along and copies them back where the C++ shares them.
\<close>

record ModuleContext =
  module :: llModule
  identifierMap :: IdentifierMap

record FuncContext =
  fmodule :: llModule
  currentBlock :: nat
  fidentifierMap :: IdentifierMap

section \<open>Scope: the identifier map\<close>

text \<open>The vector stored under a name; a name that is not a key has no bindings.\<close>

definition lookup :: "IdentifierMap \<Rightarrow> string \<Rightarrow> ValuePtr list" where
  "lookup m n = (case m n of None \<Rightarrow> [] | Some v \<Rightarrow> v)"

text \<open>\<^verbatim>\<open>map[name]\<close> inserts an empty vector under a name that is not yet a key.\<close>

definition subscript :: "IdentifierMap \<Rightarrow> string \<Rightarrow> IdentifierMap" where
  "subscript m n = (case m n of None \<Rightarrow> m(n \<mapsto> []) | Some v \<Rightarrow> m)"

text \<open>\<^verbatim>\<open>map[name].push_back(v)\<close>\<close>

definition push_back :: "IdentifierMap \<Rightarrow> string \<Rightarrow> ValuePtr \<Rightarrow> IdentifierMap" where
  "push_back m n v = m(n \<mapsto> lookup m n @ [v])"

text \<open>\<^verbatim>\<open>map[name].pop_back()\<close>; popping an empty vector is undefined behaviour.\<close>

definition pop_back :: "IdentifierMap \<Rightarrow> string \<Rightarrow> error + IdentifierMap" where
  "pop_back m n =
     (if lookup m n = [] then Inl UndefinedBehaviour
      else Inr (m(n \<mapsto> butlast (lookup m n))))"

section \<open>Lowering expressions\<close>

text \<open>
  \<^verbatim>\<open>llvm::APInt(32, val)\<close>: the constructor takes the value as a 64-bit unsigned
  integer and keeps the low 32 bits.
\<close>

definition APInt32 :: "int \<Rightarrow> 32 word" where
  "APInt32 val = ucast (word_of_int val :: 64 word)"

text \<open>
  The builder \<^verbatim>\<open>llvm::IRBuilder<>\<close> is LLVM's, not this repository's. What is
  modelled of it is what it does in every build of the library:
  \<^item> inserting an instruction appends it to the block the builder was created on and
    returns the instruction, which is the value of its result;
  \<^item> \<^verbatim>\<open>CreateAdd\<close>, \<^verbatim>\<open>CreateSub\<close>, \<^verbatim>\<open>CreateMul\<close> and \<^verbatim>\<open>CreateSDiv\<close> hand two
    constant operands to the default \<^verbatim>\<open>ConstantFolder\<close>, which answers with a
    constant and inserts nothing; otherwise they insert the binary operator;
  \<^item> \<^verbatim>\<open>CreateCall\<close> reads the function type behind the callee's pointer type before
    it builds the instruction: a null callee, or a callee that is no function, is an
    invalid dereference;
  \<^item> \<^verbatim>\<open>CreateRet\<close> accepts a null operand (a return without value).
  LLVM's own debugging assertions on operand types are not modelled: the LLVM types are
  computed by \<^verbatim>\<open>llvmType\<close> of types.h. \<open>UndefinedBehaviour\<close> errs on the side of
  failure: only a function of the module counts as a callee that can be called.
\<close>

definition Insert :: "Inst \<Rightarrow> nat \<Rightarrow> llModule \<Rightarrow> llValue \<times> llModule" where
  "Insert i b m =
     (Instruction b (length (blocks m b)),
      m\<lparr>blocks := (blocks m)(b := blocks m b @ [i])\<rparr>)"

definition emit :: "Inst \<Rightarrow> FuncContext \<Rightarrow> ValuePtr \<times> FuncContext" where
  "emit i c =
     (case Insert i (currentBlock c) (fmodule c) of
        (v, m) \<Rightarrow> (Some v, c\<lparr>fmodule := m\<rparr>))"

fun isConstant :: "llValue \<Rightarrow> bool" where
  "isConstant (ConstantInt w) = True"
| "isConstant (ConstantExpr opc l r) = True"
| "isConstant (Function f) = True"
| "isConstant (Argument f i) = False"
| "isConstant (Instruction b i) = False"

text \<open>
  \<^verbatim>\<open>builder.CreateAdd(left, right, "add")\<close> and its three siblings. The lowering
  calls them on operands it has tested; a null operand would be dereferenced.
\<close>

definition CreateBinOp ::
  "Opcode \<Rightarrow> ValuePtr \<Rightarrow> ValuePtr \<Rightarrow> FuncContext \<Rightarrow> error + ValuePtr \<times> FuncContext"
where
  "CreateBinOp opc left right c =
     (case (left, right) of
        (Some l, Some r) \<Rightarrow>
          if isConstant l \<and> isConstant r then Inr (Some (ConstantExpr opc l r), c)
          else Inr (emit (BinaryOperator opc l r) c)
      | _ \<Rightarrow> Inl UndefinedBehaviour)"

text \<open>\<^verbatim>\<open>builder.CreateCall(func, args, "call")\<close>\<close>

definition CreateCall ::
  "ValuePtr \<Rightarrow> ValuePtr list \<Rightarrow> FuncContext \<Rightarrow> error + ValuePtr \<times> FuncContext"
where
  "CreateCall func args c =
     (case func of
        Some (Function f) \<Rightarrow> Inr (emit (Call (Function f) args) c)
      | _ \<Rightarrow> Inl UndefinedBehaviour)"

text \<open>
  \<^verbatim>\<open>codegen\<close> of the five expression classes; the loop over the call arguments
  and the loop over the block members are functions of their own. A failure inside a
  subexpression ends the call.
\<close>

fun codegen :: "Expr \<Rightarrow> FuncContext \<Rightarrow> error + ValuePtr \<times> FuncContext"
  and codegenArgs :: "Expr list \<Rightarrow> FuncContext \<Rightarrow> error + ValuePtr list \<times> FuncContext"
  and codegenExprs ::
    "Expr list \<Rightarrow> ValuePtr \<Rightarrow> FuncContext \<Rightarrow> error + ValuePtr \<times> FuncContext"
where
  "codegen (IntExpr val) c = Inr (Some (ConstantInt (APInt32 val)), c)"
| "codegen (VarExpr nm) c =
     (let c' = c\<lparr>fidentifierMap := subscript (fidentifierMap c) nm\<rparr>;
          v = lookup (fidentifierMap c') nm
      in if v = [] then Inr (None, c') else Inr (last v, c'))"
| "codegen (BinOpExpr nm lhs rhs) c =
     (case codegen lhs c of Inl e \<Rightarrow> Inl e | Inr (left, c1) \<Rightarrow>
      case codegen rhs c1 of Inl e \<Rightarrow> Inl e | Inr (right, c2) \<Rightarrow>
        if left = None \<or> right = None then Inr (None, c2)
        else if nm = ''+'' then CreateBinOp OpAdd left right c2
        else if nm = ''-'' then CreateBinOp OpSub left right c2
        else if nm = ''*'' then CreateBinOp OpMul left right c2
        else if nm = ''/'' then CreateBinOp OpSDiv left right c2
        else Inr (None, c2))"
| "codegen (CallExpr functionExpr argumentExprs) c =
     (case codegen functionExpr c of Inl e \<Rightarrow> Inl e | Inr (func, c1) \<Rightarrow>
      case codegenArgs argumentExprs c1 of Inl e \<Rightarrow> Inl e | Inr (args, c2) \<Rightarrow>
        CreateCall func args c2)"
| "codegen (BlockExpr exprs) c = codegenExprs exprs (Some (ConstantInt (APInt32 0))) c"
| "codegenArgs [] c = Inr ([], c)"
| "codegenArgs (argExpr # rest) c =
     (case codegen argExpr c of Inl e \<Rightarrow> Inl e | Inr (v, c1) \<Rightarrow>
      case codegenArgs rest c1 of Inl e \<Rightarrow> Inl e | Inr (args, c2) \<Rightarrow> Inr (v # args, c2))"
| "codegenExprs [] val c = Inr (val, c)"
| "codegenExprs (expr # rest) val c =
     (case codegen expr c of Inl e \<Rightarrow> Inl e | Inr (val', c1) \<Rightarrow> codegenExprs rest val' c1)"

section \<open>Types and prototypes\<close>

text \<open>
  \<^verbatim>\<open>getType\<close>. An unknown type name aborts after printing the name. In the last
  branch the message dereferences the still empty result pointer before the abort.
\<close>

fun getType :: "ast_Type \<Rightarrow> error + type_Type" where
  "getType (TypeName n) =
     (if n = ''i8'' then Inr (Int_t 8 True)
      else if n = ''i16'' then Inr (Int_t 16 True)
      else if n = ''i32'' then Inr (Int_t 32 True)
      else if n = ''i64'' then Inr (Int_t 64 True)
      else Inl (UnknownType n))"
| "getType UnitType = Inr Unit_t"
| "getType OtherType = Inl UndefinedBehaviour"

text \<open>The loop of \<^verbatim>\<open>codegenProto\<close> over the argument types, stopping at the first abort.\<close>

fun getTypes :: "ast_Type list \<Rightarrow> error + type_Type list" where
  "getTypes [] = Inr []"
| "getTypes (t # ts) =
     (case getType t of Inl e \<Rightarrow> Inl e
      | Inr ty \<Rightarrow> (case getTypes ts of Inl e \<Rightarrow> Inl e | Inr tys \<Rightarrow> Inr (ty # tys)))"

text \<open>
  \<^verbatim>\<open>llvm::Function::Create\<close> appends the new function to the module; its formal
  arguments, one per argument type, start without names.
\<close>

definition Function_Create ::
  "type_Type \<Rightarrow> type_Type list \<Rightarrow> string \<Rightarrow> llModule \<Rightarrow> nat \<times> llModule" where
  "Function_Create rt ats nm m =
     (length (functionList m),
      m\<lparr>functionList := functionList m @
           [\<lparr>fnName = nm, fnReturnType = rt, fnArgTypes = ats,
             fnArgNames = replicate (length ats) [], fnBlocks = []\<rparr>]\<rparr>)"

definition codegenProto :: "FuncProto \<Rightarrow> llModule \<Rightarrow> error + nat \<times> llModule" where
  "codegenProto p m =
     (case getType (returnType p) of Inl e \<Rightarrow> Inl e
      | Inr rt \<Rightarrow>
        (case getTypes (argTypes p) of Inl e \<Rightarrow> Inl e
         | Inr ats \<Rightarrow> Inr (Function_Create rt ats (name p) m)))"

section \<open>Lowering one function\<close>

text \<open>\<^verbatim>\<open>it->setName(n)\<close> on formal argument \<open>i\<close> of function \<open>f\<close>.\<close>

definition setName :: "nat \<Rightarrow> nat \<Rightarrow> string \<Rightarrow> llModule \<Rightarrow> llModule" where
  "setName f i n m =
     m\<lparr>functionList := (functionList m)
          [f := (functionList m ! f)\<lparr>fnArgNames := (fnArgNames (functionList m ! f))[i := n]\<rparr>]\<rparr>"

text \<open>
  The first loop of \<^verbatim>\<open>FuncDef::codegen\<close>: it walks the formal arguments of the LLVM
  function (the list \<open>formals\<close>), counting \<open>i\<close> up, and reads \<^verbatim>\<open>proto.argNames[i]\<close>,
  which is out of range when the function has more formals than the prototype has names.
\<close>

fun bindArgs ::
  "string list \<Rightarrow> nat \<Rightarrow> type_Type list \<Rightarrow> nat \<Rightarrow> ModuleContext \<Rightarrow> error + ModuleContext"
where
  "bindArgs names llfunc [] i context = Inr context"
| "bindArgs names llfunc (formal # formals) i context =
     (if i < length names
      then bindArgs names llfunc formals (Suc i)
             \<lparr>module = setName llfunc i (names ! i) (module context),
              identifierMap =
                push_back (identifierMap context) (names ! i) (Some (Argument llfunc i))\<rparr>
      else Inl UndefinedBehaviour)"

text \<open>The second loop: one \<^verbatim>\<open>pop_back\<close> per parameter name, in declaration order.\<close>

fun unbindArgs :: "string list \<Rightarrow> IdentifierMap \<Rightarrow> error + IdentifierMap" where
  "unbindArgs [] m = Inr m"
| "unbindArgs (arg # rest) m =
     (case pop_back m arg of Inl e \<Rightarrow> Inl e | Inr m' \<Rightarrow> unbindArgs rest m')"

text \<open>\<^verbatim>\<open>llvm::BasicBlock::Create(ctx, "entry", llfunc, nullptr)\<close>: a fresh, empty block
  appended to the function.\<close>

definition BasicBlock_Create :: "nat \<Rightarrow> llModule \<Rightarrow> nat \<times> llModule" where
  "BasicBlock_Create f m =
     (nextBlock m,
      m\<lparr>functionList := (functionList m)
             [f := (functionList m ! f)\<lparr>fnBlocks := fnBlocks (functionList m ! f) @ [nextBlock m]\<rparr>],
        blocks := (blocks m)(nextBlock m := []),
        nextBlock := Suc (nextBlock m)\<rparr>)"

text \<open>The context in which the body is lowered (lines 119 to 125).\<close>

definition enterBody :: "ModuleContext \<Rightarrow> nat \<Rightarrow> FuncContext" where
  "enterBody context llfunc =
     (case BasicBlock_Create llfunc (module context) of
        (entryBlock, m) \<Rightarrow>
          \<lparr>fmodule = m, currentBlock = entryBlock, fidentifierMap = identifierMap context\<rparr>)"

text \<open>
  \<^verbatim>\<open>FuncDef::codegen\<close> up to and including \<^verbatim>\<open>builder.CreateRet(result)\<close>. The
  function pointer must point into the module. When lowering the body fails, nothing
  after it runs.
\<close>

definition FuncDef_lower :: "FuncDef \<Rightarrow> ModuleContext \<Rightarrow> nat \<Rightarrow> error + ModuleContext" where
  "FuncDef_lower fd context llfunc =
     (if length (functionList (module context)) \<le> llfunc then Inl UndefinedBehaviour
      else
        case bindArgs (argNames (proto fd)) llfunc
               (fnArgTypes (functionList (module context) ! llfunc)) 0 context of
          Inl e \<Rightarrow> Inl e
        | Inr context1 \<Rightarrow>
            let funcContext = enterBody context1 llfunc in
            case codegen (body fd) funcContext of
              Inl e \<Rightarrow> Inl e
            | Inr (result, fc) \<Rightarrow>
            case unbindArgs (argNames (proto fd)) (fidentifierMap fc) of
              Inl e \<Rightarrow> Inl e
            | Inr im \<Rightarrow>
                Inr \<lparr>module = snd (Insert (Ret result) (currentBlock funcContext) (fmodule fc)),
                     identifierMap = im\<rparr>)"

text \<open>
  The whole of \<^verbatim>\<open>FuncDef::codegen\<close>: the final \<^verbatim>\<open>assert\<close> runs LLVM's function
  verifier, a parameter here, which answers \<open>True\<close> for a broken function. (A build
  with assertions compiled out is the case of a verifier that never answers \<open>True\<close>.)
\<close>

definition FuncDef_codegen ::
  "(llModule \<Rightarrow> nat \<Rightarrow> bool) \<Rightarrow> FuncDef \<Rightarrow> ModuleContext \<Rightarrow> nat \<Rightarrow> error + ModuleContext"
where
  "FuncDef_codegen verifyFunction fd context llfunc =
     (case FuncDef_lower fd context llfunc of
        Inl e \<Rightarrow> Inl e
      | Inr context' \<Rightarrow>
          if verifyFunction (module context') llfunc then Inl AssertionFailed
          else Inr context')"

section \<open>Lowering a module\<close>

text \<open>The first loop of \<^verbatim>\<open>Module::codegen\<close>: prototypes, scope and function map.\<close>

fun declareAll ::
  "FuncDef list \<Rightarrow> ModuleContext \<Rightarrow> (string \<rightharpoonup> nat) \<Rightarrow>
     error + ModuleContext \<times> (string \<rightharpoonup> nat)"
where
  "declareAll [] context functionMap = Inr (context, functionMap)"
| "declareAll (fn # fns) context functionMap =
     (case codegenProto (proto fn) (module context) of
        Inl e \<Rightarrow> Inl e
      | Inr (llfunc, m) \<Rightarrow>
          declareAll fns
            \<lparr>module = m,
             identifierMap =
               push_back (identifierMap context) (name (proto fn)) (Some (Function llfunc))\<rparr>
            (functionMap(name (proto fn) \<mapsto> llfunc)))"


definition newModule :: llModule where
  "newModule = \<lparr>moduleID = ''fiddle'', functionList = [], blocks = (\<lambda>b. []), nextBlock = 0\<rparr>"

definition newContext :: ModuleContext where
  "newContext = \<lparr>module = newModule, identifierMap = Map.empty\<rparr>"


section \<open>Well-scoped calls\<close>




section \<open>Example inputs\<close>

text \<open>An empty function context: no bindings, inserting into block 0 of a fresh module.\<close>

definition emptyFuncContext :: FuncContext where
  "emptyFuncContext = \<lparr>fmodule = newModule, currentBlock = 0, fidentifierMap = Map.empty\<rparr>"

text \<open>
  A function context in which \<open>x\<close> is bound twice, last to a formal argument, \<open>g\<close> is
  bound to a function, and nothing else is bound.
\<close>

definition shadowedContext :: FuncContext where
  "shadowedContext =
     \<lparr>fmodule = newModule, currentBlock = 0,
      fidentifierMap = [''x'' \<mapsto> [Some (Function 0), Some (Argument 0 0)],
                        ''g'' \<mapsto> [Some (Function 1)]]\<rparr>"

text \<open>Verifiers that find nothing broken.\<close>

definition acceptFunction :: "llModule \<Rightarrow> nat \<Rightarrow> bool" where
  "acceptFunction m f = False"


text \<open>
  \<^verbatim>\<open>f() -> () { y }\<close>: the body refers to a name that is bound nowhere. With it, the
  context the first loop of \<^verbatim>\<open>Module::codegen\<close> builds for the module of \<open>f\<close> alone,
  and the context lowering \<open>f\<close> ends in.
\<close>

definition undefinedRef :: FuncDef where
  "undefinedRef =
     \<lparr>proto = \<lparr>name = ''f'', argNames = [], argTypes = [], returnType = UnitType\<rparr>,
      body = VarExpr ''y''\<rparr>"

definition undefinedRefContext :: ModuleContext where
  "undefinedRefContext =
     \<lparr>module = newModule\<lparr>functionList :=
        [\<lparr>fnName = ''f'', fnReturnType = Unit_t, fnArgTypes = [], fnArgNames = [],
          fnBlocks = []\<rparr>]\<rparr>,
      identifierMap = [''f'' \<mapsto> [Some (Function 0)]]\<rparr>"

definition undefinedRefLowered :: ModuleContext where
  "undefinedRefLowered =
     \<lparr>module = newModule
        \<lparr>functionList :=
           [\<lparr>fnName = ''f'', fnReturnType = Unit_t, fnArgTypes = [], fnArgNames = [],
             fnBlocks = [0]\<rparr>],
         blocks := (blocks newModule)(0 := [Ret None]),
         nextBlock := 1\<rparr>,
      identifierMap = [''f'' \<mapsto> [Some (Function 0)], ''y'' \<mapsto> []]\<rparr>"

text \<open>
  \<^verbatim>\<open>g(x: i32) -> i32 { x }\<close> in a module whose first function is itself called
  \<open>x\<close>: the parameter shadows the function. With it, the context after the declarations.
\<close>

definition shadowingDef :: FuncDef where
  "shadowingDef =
     \<lparr>proto = \<lparr>name = ''g'', argNames = [''x''], argTypes = [TypeName ''i32''],
               returnType = TypeName ''i32''\<rparr>,
      body = VarExpr ''x''\<rparr>"

definition shadowingContext :: ModuleContext where
  "shadowingContext =
     \<lparr>module = newModule\<lparr>functionList :=
        [\<lparr>fnName = ''x'', fnReturnType = Int_t 32 True, fnArgTypes = [], fnArgNames = [],
          fnBlocks = []\<rparr>,
         \<lparr>fnName = ''g'', fnReturnType = Int_t 32 True, fnArgTypes = [Int_t 32 True],
          fnArgNames = [[]], fnBlocks = []\<rparr>]\<rparr>,
      identifierMap = [''x'' \<mapsto> [Some (Function 0)], ''g'' \<mapsto> [Some (Function 1)]]\<rparr>"

text \<open>
  \<^verbatim>\<open>A() -> i32 { B() }\<close> followed by \<^verbatim>\<open>B() -> i32 { 7 }\<close>, with the context
  after the declarations and the module lowering ends in.
\<close>

definition callerA :: FuncDef where
  "callerA =
     \<lparr>proto = \<lparr>name = ''A'', argNames = [], argTypes = [], returnType = TypeName ''i32''\<rparr>,
      body = CallExpr (VarExpr ''B'') []\<rparr>"

definition calleeB :: FuncDef where
  "calleeB =
     \<lparr>proto = \<lparr>name = ''B'', argNames = [], argTypes = [], returnType = TypeName ''i32''\<rparr>,
      body = IntExpr 7\<rparr>"



text \<open>
  The same two functions behind \<^verbatim>\<open>A(B: i32) -> i32 { 1 }\<close>, a first function that
  shares the name \<open>A\<close> and has a parameter called \<open>B\<close>. With it, the context after the
  declarations (the function map sends \<open>A\<close> to the second function of that name,
  which has no formal argument) and the context after lowering the first function.
\<close>

definition firstA :: FuncDef where
  "firstA =
     \<lparr>proto = \<lparr>name = ''A'', argNames = [''B''], argTypes = [TypeName ''i32''],
               returnType = TypeName ''i32''\<rparr>,
      body = IntExpr 1\<rparr>"

definition declaredAAB :: ModuleContext where
  "declaredAAB =
     \<lparr>module = newModule\<lparr>functionList :=
        [\<lparr>fnName = ''A'', fnReturnType = Int_t 32 True, fnArgTypes = [Int_t 32 True],
          fnArgNames = [[]], fnBlocks = []\<rparr>,
         \<lparr>fnName = ''A'', fnReturnType = Int_t 32 True, fnArgTypes = [], fnArgNames = [],
          fnBlocks = []\<rparr>,
         \<lparr>fnName = ''B'', fnReturnType = Int_t 32 True, fnArgTypes = [], fnArgNames = [],
          fnBlocks = []\<rparr>]\<rparr>,
      identifierMap = [''A'' \<mapsto> [Some (Function 0), Some (Function 1)],
                       ''B'' \<mapsto> [Some (Function 2)]]\<rparr>"

definition loweredFirstA :: ModuleContext where
  "loweredFirstA =
     \<lparr>module = newModule
        \<lparr>functionList :=
           [\<lparr>fnName = ''A'', fnReturnType = Int_t 32 True, fnArgTypes = [Int_t 32 True],
             fnArgNames = [[]], fnBlocks = []\<rparr>,
            \<lparr>fnName = ''A'', fnReturnType = Int_t 32 True, fnArgTypes = [], fnArgNames = [],
             fnBlocks = [0]\<rparr>,
            \<lparr>fnName = ''B'', fnReturnType = Int_t 32 True, fnArgTypes = [], fnArgNames = [],
             fnBlocks = []\<rparr>],
         blocks := (blocks newModule)(0 := [Ret (Some (ConstantInt 1))]),
         nextBlock := 1\<rparr>,
      identifierMap = [''A'' \<mapsto> [Some (Function 0), Some (Function 1)], ''B'' \<mapsto> []]\<rparr>"

section \<open>Integer literals\<close>

lemma uint_APInt32: "uint (APInt32 n) = n mod 2 ^ 32"
proof -
  have "uint (APInt32 n) = take_bit 32 n"
    by (simp add: APInt32_def unsigned_ucast_eq uint_word_of_int_eq)
  then show ?thesis by (simp add: take_bit_eq_mod)
qed

lemma APInt32_zero: "APInt32 0 = 0"
  by (simp add: APInt32_def)

text \<open>
  C2. Lowering \<open>IntExpr n\<close> returns, for every integer \<open>n\<close> and in every context, a
  32-bit constant whose unsigned value is \<open>n mod 2 ^ 32\<close>; it leaves the context as it
  was, and any other context \<open>c'\<close> gives the same constant (nothing but \<open>n\<close> enters).
\<close>

theorem IntExpr_codegen_const:
  "\<exists>w. codegen (IntExpr n) c = Inr (Some (ConstantInt w), c) \<and> uint w = n mod 2 ^ 32 \<and>
       codegen (IntExpr n) c' = Inr (Some (ConstantInt w), c')"
  by (simp add: uint_APInt32)

section \<open>Variable references\<close>

text \<open>
  C5. A reference to a name whose vector of bindings is empty (or that is not a key of the
  map at all) lowers to the null value, and lowering returns normally; a reference to a
  bound name lowers to the last element of its vector. In both cases nothing changes but
  that the name becomes a key of the map.
\<close>

theorem VarExpr_codegen_lookup:
  "(lookup (fidentifierMap c) nm = [] \<longrightarrow>
      codegen (VarExpr nm) c =
        Inr (None, c\<lparr>fidentifierMap := subscript (fidentifierMap c) nm\<rparr>)) \<and>
   (lookup (fidentifierMap c) nm \<noteq> [] \<longrightarrow>
      codegen (VarExpr nm) c =
        Inr (last (lookup (fidentifierMap c) nm),
             c\<lparr>fidentifierMap := subscript (fidentifierMap c) nm\<rparr>))"
  by (simp add: lookup_def subscript_def Let_def split: option.splits)

theorem VarExpr_codegen_lookup_witness:
  "lookup (fidentifierMap shadowedContext) ''y'' = [] \<and>
   fst (projr (codegen (VarExpr ''y'') shadowedContext)) = None \<and>
   lookup (fidentifierMap shadowedContext) ''x'' = [Some (Function 0), Some (Argument 0 0)] \<and>
   codegen (VarExpr ''x'') shadowedContext = Inr (Some (Argument 0 0), shadowedContext)"
  using VarExpr_codegen_lookup [of shadowedContext "''y''"]
    VarExpr_codegen_lookup [of shadowedContext "''x''"]
  by (simp add: shadowedContext_def lookup_def subscript_def)

section \<open>Binary operators\<close>

text \<open>
  C3, as stated, fails: \<open>2 + 3\<close> has two operands that lower successfully, and no
  instruction is emitted. Both are constants, so the builder answers with a constant and
  the context, the current block included, is what it was.
\<close>

theorem BinOpExpr_codegen_counterexample:
  "codegen (IntExpr 2) emptyFuncContext = Inr (Some (ConstantInt 2), emptyFuncContext) \<and>
   codegen (IntExpr 3) emptyFuncContext = Inr (Some (ConstantInt 3), emptyFuncContext) \<and>
   codegen (BinOpExpr ''+'' (IntExpr 2) (IntExpr 3)) emptyFuncContext =
     Inr (Some (ConstantExpr OpAdd (ConstantInt 2) (ConstantInt 3)), emptyFuncContext) \<and>
   blocks (fmodule emptyFuncContext) (currentBlock emptyFuncContext) = []"
  by (simp add: CreateBinOp_def APInt32_def emptyFuncContext_def newModule_def)

text \<open>
  C3, as the code has it. When \<open>lhs\<close> lowers to a value \<open>l\<close> and then, in the context
  \<open>lhs\<close> left behind, \<open>rhs\<close> lowers to a value \<open>r\<close>, the operator \<open>+\<close>, \<open>-\<close>, \<open>*\<close>,
  \<open>/\<close> selects add, subtract, multiply, signed divide. If \<open>l\<close> or \<open>r\<close> is not a
  constant, exactly one instruction of that opcode with operands \<open>l\<close> and \<open>r\<close> in that
  order is appended to the current block and returned, and nothing else changes. If both
  are constants, the constant of that opcode on \<open>l\<close> and \<open>r\<close> is returned and nothing is
  appended.
\<close>

theorem BinOpExpr_codegen_emits:
  assumes "codegen lhs c = Inr (Some l, c1)" and "codegen rhs c1 = Inr (Some r, c2)"
    and "(nm, opc) \<in> {(''+'', OpAdd), (''-'', OpSub), (''*'', OpMul), (''/'', OpSDiv)}"
  shows "codegen (BinOpExpr nm lhs rhs) c =
           (if isConstant l \<and> isConstant r then Inr (Some (ConstantExpr opc l r), c2)
            else Inr (Some (Instruction (currentBlock c2)
                              (length (blocks (fmodule c2) (currentBlock c2)))),
                      c2\<lparr>fmodule := (fmodule c2)\<lparr>blocks := (blocks (fmodule c2))
                           (currentBlock c2 := blocks (fmodule c2) (currentBlock c2) @
                              [BinaryOperator opc l r])\<rparr>\<rparr>))"
  using assms by (auto simp: CreateBinOp_def emit_def Insert_def)

theorem BinOpExpr_codegen_emits_witness:
  "codegen (VarExpr ''x'') shadowedContext = Inr (Some (Argument 0 0), shadowedContext) \<and>
   codegen (IntExpr 3) shadowedContext = Inr (Some (ConstantInt 3), shadowedContext) \<and>
   codegen (BinOpExpr ''/'' (VarExpr ''x'') (IntExpr 3)) shadowedContext =
     Inr (Some (Instruction 0 0),
          shadowedContext\<lparr>fmodule := newModule\<lparr>blocks :=
            (\<lambda>b. [])(0 := [BinaryOperator OpSDiv (Argument 0 0) (ConstantInt 3)])\<rparr>\<rparr>) \<and>
   codegen (VarExpr ''g'') shadowedContext = Inr (Some (Function 1), shadowedContext) \<and>
   codegen (BinOpExpr ''*'' (VarExpr ''g'') (IntExpr 3)) shadowedContext =
     Inr (Some (ConstantExpr OpMul (Function 1) (ConstantInt 3)), shadowedContext)"
proof -
  have l: "codegen (VarExpr ''x'') shadowedContext = Inr (Some (Argument 0 0), shadowedContext)"
    by (simp add: shadowedContext_def lookup_def subscript_def)
  have g: "codegen (VarExpr ''g'') shadowedContext = Inr (Some (Function 1), shadowedContext)"
    by (simp add: shadowedContext_def lookup_def subscript_def)
  have r: "codegen (IntExpr 3) shadowedContext = Inr (Some (ConstantInt 3), shadowedContext)"
    by (simp add: APInt32_def)
  have d: "(''/'', OpSDiv) \<in> {(''+'', OpAdd), (''-'', OpSub), (''*'', OpMul), (''/'', OpSDiv)}"
    and m: "(''*'', OpMul) \<in> {(''+'', OpAdd), (''-'', OpSub), (''*'', OpMul), (''/'', OpSDiv)}"
    by simp_all
  from BinOpExpr_codegen_emits [OF l r d] BinOpExpr_codegen_emits [OF g r m] l r g
  show ?thesis
    by (simp add: shadowedContext_def newModule_def)
qed

text \<open>
  C4. When lowering \<open>lhs\<close> and then \<open>rhs\<close> gives a null value for either, or the operator
  is none of \<open>+\<close>, \<open>-\<close>, \<open>*\<close>, \<open>/\<close>, the binary operation lowers to the null value and the
  context is the one the operands left behind: nothing is appended for the operation.
\<close>

theorem BinOpExpr_codegen_fails:
  assumes "codegen lhs c = Inr (left, c1)" and "codegen rhs c1 = Inr (right, c2)"
    and "left = None \<or> right = None \<or> nm \<notin> {''+'', ''-'', ''*'', ''/''}"
  shows "codegen (BinOpExpr nm lhs rhs) c = Inr (None, c2)"
  using assms by auto

theorem BinOpExpr_codegen_fails_witness:
  "codegen (BinOpExpr ''%'' (IntExpr 7) (IntExpr 3)) emptyFuncContext =
     Inr (None, emptyFuncContext) \<and>
   codegen (BinOpExpr ''+'' (VarExpr ''y'') (IntExpr 3)) emptyFuncContext =
     Inr (None, emptyFuncContext\<lparr>fidentifierMap := [''y'' \<mapsto> []]\<rparr>)"
proof -
  have a: "codegen (IntExpr 7) emptyFuncContext = Inr (Some (ConstantInt 7), emptyFuncContext)"
    by (simp add: APInt32_def)
  have b: "codegen (IntExpr 3) emptyFuncContext = Inr (Some (ConstantInt 3), emptyFuncContext)"
    by (simp add: APInt32_def)
  have y: "codegen (VarExpr ''y'') emptyFuncContext =
             Inr (None, emptyFuncContext\<lparr>fidentifierMap := [''y'' \<mapsto> []]\<rparr>)"
    by (simp add: emptyFuncContext_def lookup_def subscript_def)
  have b': "codegen (IntExpr 3) (emptyFuncContext\<lparr>fidentifierMap := [''y'' \<mapsto> []]\<rparr>) =
              Inr (Some (ConstantInt 3), emptyFuncContext\<lparr>fidentifierMap := [''y'' \<mapsto> []]\<rparr>)"
    by (simp add: APInt32_def)
  have op: "Some (ConstantInt 7) = None \<or> Some (ConstantInt 3) = None \<or>
              ''%'' \<notin> {''+'', ''-'', ''*'', ''/''}"
    by simp
  have un: "None = None \<or> Some (ConstantInt 3) = None \<or> ''+'' \<notin> {''+'', ''-'', ''*'', ''/''}"
    by simp
  from BinOpExpr_codegen_fails [OF a b op] BinOpExpr_codegen_fails [OF y b' un]
  show ?thesis by simp
qed

section \<open>Calls\<close>




section \<open>Blocks\<close>

lemma foldl_Inl:
  "foldl (\<lambda>r e. case r of Inl x \<Rightarrow> Inl x | Inr s \<Rightarrow> g s e) (Inl x) es = Inl x"
  by (induction es) simp_all

lemma codegenExprs_last:
  "codegenExprs es v c =
     (if es = [] then Inr (v, c)
      else case foldl (\<lambda>r e. case r of Inl x \<Rightarrow> Inl x
                       | Inr s \<Rightarrow> (case codegen e s of Inl x \<Rightarrow> Inl x
                                   | Inr (v', s') \<Rightarrow> Inr s'))
                  (Inr c) (butlast es) of
             Inl x \<Rightarrow> Inl x
           | Inr s \<Rightarrow> codegen (last es) s)"
proof (induction es arbitrary: v c)
  case Nil
  then show ?case by simp
next
  case (Cons e es)
  show ?case
  proof (cases "es = []")
    case True
    then show ?thesis by (simp split: sum.splits prod.splits)
  next
    case False
    note ne = this
    show ?thesis
    proof (cases "codegen e c")
      case (Inl x)
      with ne show ?thesis by (simp add: foldl_Inl)
    next
      case (Inr p)
      obtain v' c1 where p: "p = (v', c1)" by (cases p)
      from Cons.IH [of v' c1] ne Inr p show ?thesis by (simp cong: sum.case_cong)
    qed
  qed
qed

text \<open>
  C6. An empty block lowers to the 32-bit constant zero and leaves the context alone. A
  non-empty block lowers to what its last expression lowers to in the context reached by
  lowering the expressions before it one after the other, first to last (and fails where
  one of those fails).
\<close>

theorem BlockExpr_codegen_result:
  "codegen (BlockExpr []) c = Inr (Some (ConstantInt 0), c) \<and>
   (exprs \<noteq> [] \<longrightarrow>
      codegen (BlockExpr exprs) c =
        (case foldl (\<lambda>r e. case r of Inl x \<Rightarrow> Inl x
                       | Inr s \<Rightarrow> (case codegen e s of Inl x \<Rightarrow> Inl x
                                   | Inr (v', s') \<Rightarrow> Inr s'))
                (Inr c) (butlast exprs) of
           Inl x \<Rightarrow> Inl x
         | Inr s \<Rightarrow> codegen (last exprs) s))"
  by (simp add: codegenExprs_last APInt32_zero)

theorem BlockExpr_codegen_result_witness:
  "[VarExpr ''y'', IntExpr 4] \<noteq> [] \<and>
   codegen (BlockExpr [VarExpr ''y'', IntExpr 4]) emptyFuncContext =
     Inr (Some (ConstantInt 4), emptyFuncContext\<lparr>fidentifierMap := [''y'' \<mapsto> []]\<rparr>)"
  using BlockExpr_codegen_result [of emptyFuncContext "[VarExpr ''y'', IntExpr 4]"]
  by (simp add: emptyFuncContext_def lookup_def subscript_def APInt32_def)

section \<open>Type resolution\<close>

text \<open>
  C7. \<open>getType\<close> maps the type names \<open>i8\<close>, \<open>i16\<close>, \<open>i32\<close>, \<open>i64\<close> to the signed
  integer types of 8, 16, 32 and 64 bits and the unit syntax to the unit type; on every
  other type name it ends in the unknown-type failure that carries the name.
\<close>

theorem getType_cases:
  "getType (TypeName ''i8'') = Inr (Int_t 8 True) \<and>
   getType (TypeName ''i16'') = Inr (Int_t 16 True) \<and>
   getType (TypeName ''i32'') = Inr (Int_t 32 True) \<and>
   getType (TypeName ''i64'') = Inr (Int_t 64 True) \<and>
   getType UnitType = Inr Unit_t \<and>
   (n \<notin> {''i8'', ''i16'', ''i32'', ''i64''} \<longrightarrow> getType (TypeName n) = Inl (UnknownType n))"
  by simp

theorem getType_cases_witness:
  "''u8'' \<notin> {''i8'', ''i16'', ''i32'', ''i64''} \<and>
   getType (TypeName ''u8'') = Inl (UnknownType ''u8'')"
  using getType_cases [of "''u8''"] by simp

section \<open>Scope discipline\<close>

lemma lookup_subscript: "lookup (subscript m a) n = lookup m n"
  by (simp add: lookup_def subscript_def split: option.splits)

lemma lookup_push_back:
  "lookup (push_back m a v) n = (if n = a then lookup m a @ [v] else lookup m n)"
  by (simp add: lookup_def push_back_def)

lemma lookup_pop_back:
  "pop_back m a = Inr m' \<Longrightarrow>
     lookup m a \<noteq> [] \<and> lookup m' n = (if n = a then butlast (lookup m a) else lookup m n)"
  by (auto simp: pop_back_def lookup_def split: if_splits)

lemma emit_frame:
  "fidentifierMap (snd (emit i c)) = fidentifierMap c"
  "functionList (fmodule (snd (emit i c))) = functionList (fmodule c)"
  "currentBlock (snd (emit i c)) = currentBlock c"
  by (simp_all add: emit_def Insert_def)

lemma CreateBinOp_frame:
  "CreateBinOp opc l r c = Inr (v, c') \<Longrightarrow>
     fidentifierMap c' = fidentifierMap c \<and>
     functionList (fmodule c') = functionList (fmodule c) \<and> currentBlock c' = currentBlock c"
  by (auto simp: CreateBinOp_def emit_def Insert_def
      split: option.splits if_splits)

lemma CreateCall_frame:
  "CreateCall func args c = Inr (v, c') \<Longrightarrow>
     fidentifierMap c' = fidentifierMap c \<and>
     functionList (fmodule c') = functionList (fmodule c) \<and> currentBlock c' = currentBlock c"
  by (auto simp: CreateCall_def emit_def Insert_def
      split: option.splits llValue.splits)

lemma codegen_frame:
  "codegen e c = Inr (v, c') \<Longrightarrow>
     (\<forall>n. lookup (fidentifierMap c') n = lookup (fidentifierMap c) n) \<and>
     functionList (fmodule c') = functionList (fmodule c) \<and> currentBlock c' = currentBlock c"
  "codegenArgs es c = Inr (vs, c') \<Longrightarrow>
     (\<forall>n. lookup (fidentifierMap c') n = lookup (fidentifierMap c) n) \<and>
     functionList (fmodule c') = functionList (fmodule c) \<and> currentBlock c' = currentBlock c"
  "codegenExprs es v0 c = Inr (v, c') \<Longrightarrow>
     (\<forall>n. lookup (fidentifierMap c') n = lookup (fidentifierMap c) n) \<and>
     functionList (fmodule c') = functionList (fmodule c) \<and> currentBlock c' = currentBlock c"
proof (induction e c and es c and es v0 c arbitrary: v c' and vs c' and v c'
    rule: codegen_codegenArgs_codegenExprs.induct)
  case (1 val c)
  then show ?case by auto
next
  case (2 nm c)
  then show ?case by (auto simp: Let_def lookup_subscript split: if_splits)
next
  case (3 nm lhs rhs c)
  from "3.prems" obtain left c1 right c2 where
    l: "codegen lhs c = Inr (left, c1)" and r: "codegen rhs c1 = Inr (right, c2)"
    by (auto split: sum.splits)
  from "3.prems" l r have "c' = c2 \<or> (\<exists>opc. CreateBinOp opc left right c2 = Inr (v, c'))"
    by (auto split: if_splits)
  with "3.IH"(1) [OF l] "3.IH"(2) [OF l refl r] show ?case
    by (auto dest: CreateBinOp_frame)
next
  case (4 functionExpr argumentExprs c)
  from "4.prems" obtain func c1 args c2 where
    f: "codegen functionExpr c = Inr (func, c1)" and
    a: "codegenArgs argumentExprs c1 = Inr (args, c2)" and
    k: "CreateCall func args c2 = Inr (v, c')"
    by (auto split: sum.splits)
  from "4.IH"(1) [OF f] "4.IH"(2) [OF f refl a] CreateCall_frame [OF k] show ?case
    by auto
next
  case (5 exprs c)
  then show ?case by simp
next
  case (6 c)
  then show ?case by auto
next
  case (7 argExpr rest c)
  from "7.prems" obtain x c1 args c2 where
    a: "codegen argExpr c = Inr (x, c1)" and r: "codegenArgs rest c1 = Inr (args, c2)"
    and e: "c' = c2"
    by (auto split: sum.splits)
  from "7.IH"(1) [OF a] "7.IH"(2) [OF a refl r] e show ?case by auto
next
  case (8 val c)
  then show ?case by auto
next
  case (9 expr rest val c)
  from "9.prems" obtain x c1 where
    a: "codegen expr c = Inr (x, c1)" and r: "codegenExprs rest x c1 = Inr (v, c')"
    by (auto split: sum.splits)
  from "9.IH"(1) [OF a] "9.IH"(2) [OF a refl r] show ?case by auto
qed

lemma bindArgs_lookup:
  "bindArgs names f formals i ctx = Inr ctx' \<Longrightarrow>
     lookup (identifierMap ctx') n =
       lookup (identifierMap ctx) n @
         map (\<lambda>j. Some (Argument f j)) (filter (\<lambda>j. names ! j = n) [i..<i + length formals])"
proof (induction formals arbitrary: i ctx)
  case Nil
  then show ?case by simp
next
  case (Cons a formals)
  from Cons.prems have i: "i < length names" by (simp split: if_splits)
  have upt: "[i..<i + length (a # formals)] = i # [Suc i..<Suc i + length formals]"
    by (simp add: upt_conv_Cons del: upt_Suc)
  from Cons.prems i Cons.IH [of "Suc i"] show ?case
    unfolding upt by (auto simp: lookup_push_back)
qed

lemma bindArgs_succeeds:
  "i + length formals \<le> length names \<Longrightarrow> \<exists>ctx'. bindArgs names f formals i ctx = Inr ctx'"
  by (induction formals arbitrary: i ctx) auto

lemma unbindArgs_lookup:
  "unbindArgs names m = Inr m' \<Longrightarrow>
     lookup m' n = take (length (lookup m n) - count_list names n) (lookup m n)"
proof (induction names arbitrary: m)
  case Nil
  then show ?case by simp
next
  case (Cons a names)
  from Cons.prems obtain m1 where p: "pop_back m a = Inr m1" and u: "unbindArgs names m1 = Inr m'"
    by (auto split: sum.splits)
  from lookup_pop_back [OF p, of n] Cons.IH [OF u] show ?case
    by (auto simp: butlast_conv_take min_def)
qed

lemma unbindArgs_succeeds:
  "(\<And>n. count_list names n \<le> length (lookup m n)) \<Longrightarrow> \<exists>m'. unbindArgs names m = Inr m'"
proof (induction names arbitrary: m)
  case Nil
  then show ?case by simp
next
  case (Cons a names)
  from Cons.prems [of a] have ne: "lookup m a \<noteq> []" by auto
  then obtain m1 where p: "pop_back m a = Inr m1" by (simp add: pop_back_def)
  have "count_list names n \<le> length (lookup m1 n)" for n
  proof (cases "n = a")
    case True
    with Cons.prems [of a] lookup_pop_back [OF p, of a] show ?thesis by simp
  next
    case False
    with Cons.prems [of n] lookup_pop_back [OF p, of n] show ?thesis by simp
  qed
  from Cons.IH [OF this] p show ?case by simp
qed

lemma count_positions:
  "length (filter (\<lambda>j. names ! j = n) [0..<length names]) = count_list names n"
proof -
  have "count_list names n = length (filter ((=) n) (map ((!) names) [0..<length names]))"
    by (simp only: count_list_eq_length_filter map_nth)
  also have "\<dots> = length (filter (\<lambda>j. names ! j = n) [0..<length names])"
    by (simp only: filter_map comp_def length_map eq_commute [of n])
  finally show ?thesis by simp
qed

lemma map_update_same: "(map g xs)[i := g (xs ! i)] = map g xs"
  by (metis list_update_id map_update)

lemma setName_frame:
  "map fnArgTypes (functionList (setName f i n m)) = map fnArgTypes (functionList m)"
  "nextBlock (setName f i n m) = nextBlock m"
  "blocks (setName f i n m) = blocks m"
  by (simp_all add: setName_def map_update map_update_same [of fnArgTypes, simplified])

lemma bindArgs_frame:
  "bindArgs names f formals i ctx = Inr ctx' \<Longrightarrow>
     map fnArgTypes (functionList (module ctx')) = map fnArgTypes (functionList (module ctx)) \<and>
     nextBlock (module ctx') = nextBlock (module ctx) \<and>
     blocks (module ctx') = blocks (module ctx)"
proof (induction formals arbitrary: i ctx)
  case Nil
  then show ?case by simp
next
  case (Cons a formals)
  from Cons.prems have i: "i < length names" by (simp split: if_splits)
  from Cons.prems i Cons.IH [of "Suc i"] show ?case
    by (auto simp: setName_frame)
qed

lemma enterBody_simps:
  "fidentifierMap (enterBody ctx f) = identifierMap ctx"
  "currentBlock (enterBody ctx f) = nextBlock (module ctx)"
  "map fnArgTypes (functionList (fmodule (enterBody ctx f))) = map fnArgTypes (functionList (module ctx))"
  by (simp_all add: enterBody_def BasicBlock_Create_def map_update
        map_update_same [of fnArgTypes, simplified])

lemma take_append_length: "take (length (xs @ ys) - length ys) (xs @ ys) = xs"
  by simp

lemma FuncDef_lower_cases:
  assumes valid: "llfunc < length (functionList (module context))"
    and arity_eq: "length (argNames (proto fd)) =
                  length (fnArgTypes (functionList (module context) ! llfunc))"
  shows "\<exists>context1.
           bindArgs (argNames (proto fd)) llfunc
             (fnArgTypes (functionList (module context) ! llfunc)) 0 context = Inr context1 \<and>
           (\<forall>n. lookup (identifierMap context1) n =
              lookup (identifierMap context) n @
                map (\<lambda>j. Some (Argument llfunc j))
                  (filter (\<lambda>j. argNames (proto fd) ! j = n) [0..<length (argNames (proto fd))])) \<and>
           (case codegen (body fd) (enterBody context1 llfunc) of
              Inl e \<Rightarrow> FuncDef_lower fd context llfunc = Inl e
            | Inr (result, fc) \<Rightarrow>
                \<exists>context'. FuncDef_lower fd context llfunc = Inr context' \<and>
                  (\<forall>n. lookup (identifierMap context') n = lookup (identifierMap context) n) \<and>
                  map fnArgTypes (functionList (module context')) =
                    map fnArgTypes (functionList (module context)))"
proof -
  let ?names = "argNames (proto fd)"
  let ?formals = "fnArgTypes (functionList (module context) ! llfunc)"
  have "\<exists>context1. bindArgs ?names llfunc ?formals 0 context = Inr context1"
    using arity_eq by (intro bindArgs_succeeds) simp
  then obtain context1 where b: "bindArgs ?names llfunc ?formals 0 context = Inr context1"
    by auto
  have bound: "lookup (identifierMap context1) n =
      lookup (identifierMap context) n @
        map (\<lambda>j. Some (Argument llfunc j)) (filter (\<lambda>j. ?names ! j = n) [0..<length ?names])" for n
    using bindArgs_lookup [OF b, of n] arity_eq by simp
  have body: "case codegen (body fd) (enterBody context1 llfunc) of
              Inl e \<Rightarrow> FuncDef_lower fd context llfunc = Inl e
            | Inr (result, fc) \<Rightarrow>
                \<exists>context'. FuncDef_lower fd context llfunc = Inr context' \<and>
                  (\<forall>n. lookup (identifierMap context') n = lookup (identifierMap context) n) \<and>
                  map fnArgTypes (functionList (module context')) =
                    map fnArgTypes (functionList (module context))"
  proof (cases "codegen (body fd) (enterBody context1 llfunc)")
    case (Inl e)
    with valid b show ?thesis by (simp add: FuncDef_lower_def Let_def)
  next
    case (Inr p)
    obtain result fc where p: "p = (result, fc)" by (cases p)
    with Inr have cg: "codegen (body fd) (enterBody context1 llfunc) = Inr (result, fc)"
      by simp
    have pushed: "lookup (fidentifierMap fc) n =
        lookup (identifierMap context) n @
          map (\<lambda>j. Some (Argument llfunc j)) (filter (\<lambda>j. ?names ! j = n) [0..<length ?names])" for n
      using codegen_frame(1) [OF cg] bound [of n] by (simp add: enterBody_simps)
    have len: "length (lookup (fidentifierMap fc) n) =
        length (lookup (identifierMap context) n) + count_list ?names n" for n
      by (simp add: pushed count_positions)
    then have "\<And>n. count_list ?names n \<le> length (lookup (fidentifierMap fc) n)"
      by simp
    from unbindArgs_succeeds [OF this]
    obtain im where u: "unbindArgs ?names (fidentifierMap fc) = Inr im" by auto
    have restored: "lookup im n = lookup (identifierMap context) n" for n
      using unbindArgs_lookup [OF u, of n] len [of n] pushed [of n] by simp
    have fl: "map fnArgTypes (functionList (fmodule fc)) =
                map fnArgTypes (functionList (module context))"
      using codegen_frame(1) [OF cg] bindArgs_frame [OF b]
      by (simp add: enterBody_simps)
    show ?thesis
      using valid b cg u restored fl
      by (simp add: FuncDef_lower_def Insert_def Let_def)
  qed
  from b bound body show ?thesis by blast
qed

lemma FuncDef_codegen_cases:
  "FuncDef_codegen vf fd ctx k = Inr ctx' \<Longrightarrow> FuncDef_lower fd ctx k = Inr ctx'"
  by (auto simp: FuncDef_codegen_def split: sum.splits if_splits)

lemma FuncDef_lower_restores:
  assumes "llfunc < length (functionList (module context))"
    and "length (argNames (proto fd)) =
           length (fnArgTypes (functionList (module context) ! llfunc))"
    and "FuncDef_lower fd context llfunc = Inr context'"
  shows "(\<forall>n. lookup (identifierMap context') n = lookup (identifierMap context) n) \<and>
         map fnArgTypes (functionList (module context')) =
           map fnArgTypes (functionList (module context))"
proof -
  from FuncDef_lower_cases [OF assms(1,2)] obtain context1 where
    c: "case codegen (body fd) (enterBody context1 llfunc) of
          Inl e \<Rightarrow> FuncDef_lower fd context llfunc = Inl e
        | Inr (result, fc) \<Rightarrow>
            \<exists>context'. FuncDef_lower fd context llfunc = Inr context' \<and>
              (\<forall>n. lookup (identifierMap context') n = lookup (identifierMap context) n) \<and>
              map fnArgTypes (functionList (module context')) =
                map fnArgTypes (functionList (module context))"
    by blast
  show ?thesis
  proof (cases "codegen (body fd) (enterBody context1 llfunc)")
    case (Inl e)
    with c assms(3) show ?thesis by simp
  next
    case (Inr p)
    obtain result fc where "p = (result, fc)" by (cases p)
    with c Inr assms(3) show ?thesis by auto
  qed
qed

section \<open>Lowering a function: scope and return\<close>

text \<open>
  C9, as stated, fails. In the module \<^verbatim>\<open>A(B: i32) -> i32 { 1 }\<close>,
  \<^verbatim>\<open>A() -> i32 { B() }\<close>, \<^verbatim>\<open>B() -> i32 { 7 }\<close> the function map sends \<open>A\<close> to the
  second function of that name, so the first definition is lowered into an LLVM function
  without formal arguments: nothing is bound for its parameter \<open>B\<close>, the body is lowered,
  and the one \<^verbatim>\<open>pop_back\<close> for \<open>B\<close> removes the binding of the function \<open>B\<close>. The
  call completes, and \<open>B\<close>, bound before, is unbound after.
\<close>

theorem FuncDef_codegen_scope_counterexample:
  "declareAll [firstA, callerA, calleeB] newContext Map.empty =
     Inr (declaredAAB, [''A'' \<mapsto> 1, ''B'' \<mapsto> 2]) \<and>
   argNames (proto firstA) = [''B''] \<and>
   lookup (identifierMap declaredAAB) ''B'' = [Some (Function 2)] \<and>
   FuncDef_codegen acceptFunction firstA declaredAAB 1 = Inr loweredFirstA \<and>
   lookup (identifierMap loweredFirstA) ''B'' = []"
  by (simp add: firstA_def callerA_def calleeB_def declaredAAB_def loweredFirstA_def
      newContext_def newModule_def codegenProto_def Function_Create_def push_back_def
      pop_back_def lookup_def FuncDef_codegen_def FuncDef_lower_def enterBody_def
      BasicBlock_Create_def Insert_def acceptFunction_def APInt32_def numeral_2_eq_2)

text \<open>
  C9, as the code has it. When the LLVM function handed to \<^verbatim>\<open>FuncDef::codegen\<close> is a
  function of the module with one formal argument per parameter name, then whenever the
  call completes every name, parameter or not, has exactly the vector of bindings it had
  before: a parameter \<open>x\<close> looks up to what was bound before (or to nothing), and the
  bindings of the module's functions are untouched. Binding and unbinding never fail
  then: the call fails only where lowering the body fails or the verifier's assertion
  does.
\<close>

theorem FuncDef_codegen_restores_scope:
  assumes "llfunc < length (functionList (module context))"
    and "length (argNames (proto fd)) =
           length (fnArgTypes (functionList (module context) ! llfunc))"
  shows "(\<forall>context'. FuncDef_codegen verifyFunction fd context llfunc = Inr context' \<longrightarrow>
            (\<forall>n. lookup (identifierMap context') n = lookup (identifierMap context) n)) \<and>
         (\<exists>context1.
            bindArgs (argNames (proto fd)) llfunc
              (fnArgTypes (functionList (module context) ! llfunc)) 0 context = Inr context1 \<and>
            (case codegen (body fd) (enterBody context1 llfunc) of
               Inl e \<Rightarrow> FuncDef_codegen verifyFunction fd context llfunc = Inl e
             | Inr (result, fc) \<Rightarrow>
                 \<exists>context'. FuncDef_lower fd context llfunc = Inr context' \<and>
                   FuncDef_codegen verifyFunction fd context llfunc =
                     (if verifyFunction (module context') llfunc then Inl AssertionFailed
                      else Inr context')))"
proof -
  have "\<forall>n. lookup (identifierMap context') n = lookup (identifierMap context) n"
    if "FuncDef_codegen verifyFunction fd context llfunc = Inr context'" for context'
    using FuncDef_lower_restores [OF assms FuncDef_codegen_cases [OF that]] by simp
  moreover from FuncDef_lower_cases [OF assms] obtain context1 where
    b: "bindArgs (argNames (proto fd)) llfunc
              (fnArgTypes (functionList (module context) ! llfunc)) 0 context = Inr context1"
    and c: "case codegen (body fd) (enterBody context1 llfunc) of
              Inl e \<Rightarrow> FuncDef_lower fd context llfunc = Inl e
            | Inr (result, fc) \<Rightarrow>
                \<exists>context'. FuncDef_lower fd context llfunc = Inr context' \<and>
                  (\<forall>n. lookup (identifierMap context') n = lookup (identifierMap context) n) \<and>
                  map fnArgTypes (functionList (module context')) =
                    map fnArgTypes (functionList (module context))"
    by blast
  have "case codegen (body fd) (enterBody context1 llfunc) of
               Inl e \<Rightarrow> FuncDef_codegen verifyFunction fd context llfunc = Inl e
             | Inr (result, fc) \<Rightarrow>
                 \<exists>context'. FuncDef_lower fd context llfunc = Inr context' \<and>
                   FuncDef_codegen verifyFunction fd context llfunc =
                     (if verifyFunction (module context') llfunc then Inl AssertionFailed
                      else Inr context')"
  proof (cases "codegen (body fd) (enterBody context1 llfunc)")
    case (Inl e)
    with c show ?thesis by (simp add: FuncDef_codegen_def)
  next
    case (Inr p)
    obtain result fc where "p = (result, fc)" by (cases p)
    with c Inr show ?thesis by (auto simp: FuncDef_codegen_def)
  qed
  ultimately show ?thesis using b by blast
qed

theorem FuncDef_codegen_restores_scope_witness:
  "1 < length (functionList (module shadowingContext)) \<and>
   length (argNames (proto shadowingDef)) =
     length (fnArgTypes (functionList (module shadowingContext) ! 1)) \<and>
   lookup (identifierMap shadowingContext) ''x'' = [Some (Function 0)] \<and>
   (\<exists>context'. FuncDef_codegen acceptFunction shadowingDef shadowingContext 1 = Inr context' \<and>
      blocks (module context') 0 = [Ret (Some (Argument 1 0))] \<and>
      lookup (identifierMap context') ''x'' = [Some (Function 0)] \<and>
      lookup (identifierMap context') ''g'' = [Some (Function 1)] \<and>
      lookup (identifierMap context') ''y'' = [])"
proof -
  have v: "1 < length (functionList (module shadowingContext))"
    by (simp add: shadowingContext_def)
  have a: "length (argNames (proto shadowingDef)) =
     length (fnArgTypes (functionList (module shadowingContext) ! 1))"
    by (simp add: shadowingContext_def shadowingDef_def)
  have l: "lookup (identifierMap shadowingContext) ''x'' = [Some (Function 0)]"
    "lookup (identifierMap shadowingContext) ''g'' = [Some (Function 1)]"
    "lookup (identifierMap shadowingContext) ''y'' = []"
    by (simp_all add: shadowingContext_def lookup_def)
  have "\<exists>context'. FuncDef_codegen acceptFunction shadowingDef shadowingContext 1 = Inr context' \<and>
      blocks (module context') 0 = [Ret (Some (Argument 1 0))]"
    by (simp add: FuncDef_codegen_def FuncDef_lower_def shadowingContext_def shadowingDef_def
        enterBody_def BasicBlock_Create_def Insert_def push_back_def pop_back_def lookup_def
        subscript_def setName_def newModule_def acceptFunction_def)
  then obtain context' where
    c: "FuncDef_codegen acceptFunction shadowingDef shadowingContext 1 = Inr context'"
      "blocks (module context') 0 = [Ret (Some (Argument 1 0))]"
    by blast
  from FuncDef_codegen_restores_scope [OF v a, of acceptFunction, THEN conjunct1, rule_format, OF c(1)]
    v a l c show ?thesis
    by auto
qed

text \<open>
  C1, as stated, fails. That a return instruction is emitted only when the body lowered to
  a value, and that a failed body is reported, is refuted by \<^verbatim>\<open>f() -> () { y }\<close>: the
  body lowers to the null value, and the call completes having appended \<^verbatim>\<open>ret\<close> with
  the null operand to the entry block.
\<close>

theorem FuncDef_codegen_ret_counterexample:
  "codegen (body undefinedRef) (enterBody undefinedRefContext 0) =
     Inr (None, enterBody undefinedRefContext 0
            \<lparr>fidentifierMap := [''f'' \<mapsto> [Some (Function 0)], ''y'' \<mapsto> []]\<rparr>) \<and>
   FuncDef_codegen acceptFunction undefinedRef undefinedRefContext 0 = Inr undefinedRefLowered \<and>
   blocks (module undefinedRefLowered) 0 = [Ret None]"
  by (simp add: FuncDef_codegen_def FuncDef_lower_def undefinedRef_def undefinedRefContext_def
      undefinedRefLowered_def enterBody_def BasicBlock_Create_def Insert_def lookup_def
      subscript_def newModule_def acceptFunction_def)

text \<open>
  C1, as the code has it. \<^verbatim>\<open>FuncDef::codegen\<close> returns nothing and tests nothing:
  whenever it completes, whether the body lowered to a value or to the null value, the
  entry block (the fresh block of the function) holds what the body appended followed by a
  return instruction carrying the body's result, and one binding has been popped per
  occurrence of each name among the parameter names.
\<close>

theorem FuncDef_codegen_ret_always:
  assumes "FuncDef_codegen verifyFunction fd context llfunc = Inr context'"
    and "bindArgs (argNames (proto fd)) llfunc
           (fnArgTypes (functionList (module context) ! llfunc)) 0 context = Inr context1"
    and "codegen (body fd) (enterBody context1 llfunc) = Inr (result, fc)"
  shows "blocks (module context') (nextBlock (module context)) =
           blocks (fmodule fc) (nextBlock (module context)) @ [Ret result] \<and>
         (\<forall>n. lookup (identifierMap context') n =
            take (length (lookup (fidentifierMap fc) n) - count_list (argNames (proto fd)) n)
              (lookup (fidentifierMap fc) n))"
proof -
  from assms(1) have l: "FuncDef_lower fd context llfunc = Inr context'"
    by (rule FuncDef_codegen_cases)
  from bindArgs_frame [OF assms(2)]
  have nb: "currentBlock (enterBody context1 llfunc) = nextBlock (module context)"
    by (simp add: enterBody_simps)
  from l assms(2,3) obtain im where
    u: "unbindArgs (argNames (proto fd)) (fidentifierMap fc) = Inr im" and
    c: "context' = \<lparr>module = snd (Insert (Ret result) (nextBlock (module context)) (fmodule fc)),
                    identifierMap = im\<rparr>"
    by (auto simp: FuncDef_lower_def Let_def nb split: if_splits sum.splits)
  from unbindArgs_lookup [OF u] c show ?thesis
    by (simp add: Insert_def)
qed

theorem FuncDef_codegen_ret_always_witness:
  "FuncDef_codegen acceptFunction undefinedRef undefinedRefContext 0 = Inr undefinedRefLowered \<and>
   bindArgs (argNames (proto undefinedRef)) 0
     (fnArgTypes (functionList (module undefinedRefContext) ! 0)) 0 undefinedRefContext =
     Inr undefinedRefContext \<and>
   codegen (body undefinedRef) (enterBody undefinedRefContext 0) =
     Inr (None, enterBody undefinedRefContext 0
            \<lparr>fidentifierMap := [''f'' \<mapsto> [Some (Function 0)], ''y'' \<mapsto> []]\<rparr>) \<and>
   blocks (module undefinedRefLowered) (nextBlock (module undefinedRefContext)) =
     blocks (fmodule (enterBody undefinedRefContext 0)) (nextBlock (module undefinedRefContext)) @
       [Ret None] \<and>
   lookup (identifierMap undefinedRefLowered) ''f'' = [Some (Function 0)]"
proof -
  have h1: "FuncDef_codegen acceptFunction undefinedRef undefinedRefContext 0 =
              Inr undefinedRefLowered"
    by (simp add: FuncDef_codegen_def FuncDef_lower_def undefinedRef_def undefinedRefContext_def
      undefinedRefLowered_def enterBody_def BasicBlock_Create_def Insert_def lookup_def
      subscript_def newModule_def acceptFunction_def)
  have h2: "bindArgs (argNames (proto undefinedRef)) 0
     (fnArgTypes (functionList (module undefinedRefContext) ! 0)) 0 undefinedRefContext =
     Inr undefinedRefContext"
    by (simp add: undefinedRef_def undefinedRefContext_def)
  have h3: "codegen (body undefinedRef) (enterBody undefinedRefContext 0) =
     Inr (None, enterBody undefinedRefContext 0
            \<lparr>fidentifierMap := [''f'' \<mapsto> [Some (Function 0)], ''y'' \<mapsto> []]\<rparr>)"
    by (simp add: undefinedRef_def undefinedRefContext_def enterBody_def BasicBlock_Create_def
        lookup_def subscript_def)
  have f: "lookup (identifierMap undefinedRefLowered) ''f'' = [Some (Function 0)]"
    by (simp add: undefinedRefLowered_def lookup_def)
  from FuncDef_codegen_ret_always [OF h1 h2 h3] h1 h2 h3 f show ?thesis
    by simp
qed

section \<open>Lowering a module: forward references\<close>
















end
